theory Spec2Isabelle
  imports Main "HOL-Library.Multiset"
begin

section \<open>Data model of \<open>db/models.py\<close>\<close>

text \<open>
  Every model class inherits from the framework's \<open>Model\<close>, which contributes the primary
  key: \<open>None\<close> for an object that was never saved, \<open>Some k\<close> afterwards. Class
  inheritance is record extension. Python integers are unbounded, so \<open>IntegerField\<close>
  values are \<open>int\<close>; a \<open>DateTimeField\<close> value is a point on a linear time axis, an
  \<open>int\<close> as well. An object holds the objects its foreign keys refer to, as the
  attribute accesses of the source read them (\<open>self.movie_session.cinema_hall\<close>); the
  foreign key itself is the primary key of the object held.
\<close>

type_synonym datetime = int

record Model =
  pk :: "nat option"

record Genre = Model +
  genre_name :: string

record Actor = Model +
  first_name :: string
  last_name :: string

record Movie = Model +
  title :: string
  description :: string
  actors :: "Actor list"
  genres :: "Genre list"

record CinemaHall = Model +
  name :: string
  rows :: int
  seats_in_row :: int

record MovieSession = Model +
  show_time :: datetime
  cinema_hall :: CinemaHall
  movie :: Movie

record User = Model +
  username :: string

record Order = Model +
  created_at :: datetime
  user :: User

record Ticket = Model +
  movie_session :: MovieSession
  order :: Order
  row :: int
  seat :: int

subsection \<open>\<open>CinemaHall.capacity\<close>\<close>

definition capacity :: "CinemaHall \<Rightarrow> int" where
  "capacity self = rows self * seats_in_row self"

subsection \<open>Errors\<close>

text \<open>
  \<open>ValidationError\<close> is raised with a dictionary from field names to lists of messages
  and a \<open>code\<close> keyword; the dictionary is kept as an association list in the order of
  its items. An aggregated error carries no code.
\<close>

type_synonym error_dict = "(string \<times> string list) list"

datatype error =
  ValidationError error_dict "string option"
| DuplicateSeat string
| ConstraintViolation string
| ValueError string
| DatabaseError string

subsection \<open>String formatting of integers\<close>

text \<open>\<open>"{}".format(n)\<close> for an integer: decimal digits, with a leading minus sign.\<close>

definition digit_char :: "nat \<Rightarrow> char" where
  "digit_char d = ''0123456789'' ! d"

fun str_nat :: "nat \<Rightarrow> string" where
  "str_nat n = (if n < 10 then [digit_char n] else str_nat (n div 10) @ [digit_char (n mod 10)])"

declare str_nat.simps [simp del]

definition str_int :: "int \<Rightarrow> string" where
  "str_int i = (if i < 0 then CHR ''-'' # str_nat (nat (- i)) else str_nat (nat i))"

subsection \<open>\<open>Ticket.clean\<close>\<close>

definition clean :: "Ticket \<Rightarrow> error + unit" where
  "clean self =
    (let cinema_hall = cinema_hall (movie_session self) in
     if \<not> (1 \<le> row self \<and> row self \<le> rows cinema_hall) then
       Inl (ValidationError
             [(''row'',
               [''row number must be in available range: (1, rows): (1, ''
                  @ str_int (rows cinema_hall) @ '')''])]
             (Some ''seat_out_of_range''))
     else if \<not> (1 \<le> seat self \<and> seat self \<le> seats_in_row cinema_hall) then
       Inl (ValidationError
             [(''seat'',
               [''seat number must be in available range: (1, seats_in_row): (1, ''
                  @ str_int (seats_in_row cinema_hall) @ '')''])]
             (Some ''seat_out_of_range''))
     else Inr ())"

subsection \<open>\<open>Ticket.save\<close>\<close>

text \<open>
  \<open>save\<close> calls the inherited \<open>full_clean\<close> and then the inherited \<open>save\<close>.
  \<open>full_clean\<close> belongs to the framework: it runs the field validators, then the
  \<open>clean\<close> hook defined above, then the uniqueness validators on the fields that have
  no error yet, merges the error dictionaries of all three and raises one
  \<open>ValidationError\<close> when the merged dictionary is not empty. The field validators and the
  uniqueness validators are not part of this repository; they are parameters here
  (\<open>clean_fields\<close>, \<open>validate_unique\<close>), and may read the stored state.
\<close>

fun add_field_errors :: "string \<Rightarrow> string list \<Rightarrow> error_dict \<Rightarrow> error_dict" where
  "add_field_errors field msgs [] = [(field, msgs)]"
| "add_field_errors field msgs ((f, ms) # rest) =
     (if f = field then (f, ms @ msgs) # rest else (f, ms) # add_field_errors field msgs rest)"

fun update_error_dict :: "error_dict \<Rightarrow> error_dict \<Rightarrow> error_dict" where
  "update_error_dict [] errors = errors"
| "update_error_dict ((field, msgs) # new) errors =
     update_error_dict new (add_field_errors field msgs errors)"

definition full_clean ::
  "(Ticket \<Rightarrow> 'db \<Rightarrow> error_dict) \<Rightarrow> (Ticket \<Rightarrow> 'db \<Rightarrow> string list \<Rightarrow> error_dict)
    \<Rightarrow> Ticket \<Rightarrow> 'db \<Rightarrow> error + unit" where
  "full_clean clean_fields validate_unique self db =
    (case (case clean self of
             Inl (ValidationError d c) \<Rightarrow> Inr (update_error_dict d (clean_fields self db))
           | Inl e \<Rightarrow> Inl e
           | Inr u \<Rightarrow> Inr (clean_fields self db)) of
       Inl e \<Rightarrow> Inl e
     | Inr errors \<Rightarrow>
         (let errors = update_error_dict (validate_unique self db (map fst errors)) errors in
          if errors \<noteq> [] then Inl (ValidationError errors None) else Inr ()))"

text \<open>
  The stored state is threaded explicitly: \<open>save\<close> returns its outcome together with
  the state it leaves behind. The inherited \<open>save\<close> is the parameter \<open>super_save\<close>;
  \<open>using\<close> and \<open>update_fields\<close> are handed to it unchanged and are left out.
\<close>

definition save ::
  "(Ticket \<Rightarrow> 'db \<Rightarrow> error_dict) \<Rightarrow> (Ticket \<Rightarrow> 'db \<Rightarrow> string list \<Rightarrow> error_dict)
    \<Rightarrow> (Ticket \<Rightarrow> bool \<Rightarrow> bool \<Rightarrow> 'db \<Rightarrow> (error + Ticket) \<times> 'db)
    \<Rightarrow> Ticket \<Rightarrow> bool \<Rightarrow> bool \<Rightarrow> 'db \<Rightarrow> (error + Ticket) \<times> 'db" where
  "save clean_fields validate_unique super_save self force_insert force_update db =
    (case full_clean clean_fields validate_unique self db of
       Inl e \<Rightarrow> (Inl e, db)
     | Inr u \<Rightarrow> super_save self force_insert force_update db)"

section \<open>Storage layer\<close>

text \<open>
  The tables of the models the claims are about, each in insertion order.
\<close>

record database =
  cinema_halls :: "CinemaHall list"
  movie_sessions :: "MovieSession list"
  orders :: "Order list"
  tickets :: "Ticket list"

definition pks :: "'a Model_scheme list \<Rightarrow> nat list" where
  "pks table = concat (map (\<lambda>r. case pk r of None \<Rightarrow> [] | Some k \<Rightarrow> [k]) table)"

definition fresh_pk :: "'a Model_scheme list \<Rightarrow> nat" where
  "fresh_pk table = Suc (fold max (pks table) 0)"

definition references :: "'a Model_scheme \<Rightarrow> 'b Model_scheme list \<Rightarrow> bool" where
  "references parent table = (case pk parent of None \<Rightarrow> False | Some k \<Rightarrow> k \<in> set (pks table))"

text \<open>
  What depends on the storage engine chosen is a parameter: the range of an integer
  column, and whether the declared \<open>max_length\<close> of a character column is enforced.
\<close>

record backend =
  integer_min :: int
  integer_max :: int
  enforces_max_length :: bool

definition fits :: "backend \<Rightarrow> int \<Rightarrow> bool" where
  "fits be v = (integer_min be \<le> v \<and> v \<le> integer_max be)"

text \<open>
  Modelled from the spec: the storage engine's write of one row, which the inherited
  \<open>save\<close> issues, is not part of the repository's source. Both flags together are
  refused. An object without primary key is inserted under a key that is not in use,
  unless an update is forced. An object whose key is stored replaces that row, unless an
  insert is forced, which the stored key refuses. An object whose key is not stored is
  inserted under its own key, unless an update is forced.
\<close>

definition write_row ::
  "'a Model_scheme \<Rightarrow> bool \<Rightarrow> bool \<Rightarrow> 'a Model_scheme list
    \<Rightarrow> error + 'a Model_scheme \<times> 'a Model_scheme list" where
  "write_row self force_insert force_update table =
    (if force_insert \<and> force_update then Inl (ValueError ''force_insert and force_update'')
     else
       (case pk self of
          None \<Rightarrow>
            if force_update then Inl (ValueError ''force_update without primary key'')
            else (let self' = self\<lparr>pk := Some (fresh_pk table)\<rparr> in Inr (self', table @ [self']))
        | Some k \<Rightarrow>
            if k \<in> set (pks table) then
              (if force_insert then Inl (ConstraintViolation ''pk'')
               else Inr (self, map (\<lambda>r. if pk r = Some k then self else r) table))
            else
              (if force_update then Inl (DatabaseError ''forced update did not affect any rows'')
               else Inr (self, table @ [self]))))"

subsection \<open>\<open>Ticket.Meta\<close>: the uniqueness constraint\<close>

datatype constraint = UniqueConstraint "string list" string

definition Ticket_constraints :: "constraint list" where
  "Ticket_constraints =
     [UniqueConstraint [''row'', ''seat'', ''movie_session''] ''unique_ticket_constraint_name'']"

datatype column_value = IntegerValue int | ForeignKey "nat option"

definition Ticket_column :: "Ticket \<Rightarrow> string \<Rightarrow> column_value option" where
  "Ticket_column self f =
    (if f = ''row'' then Some (IntegerValue (row self))
     else if f = ''seat'' then Some (IntegerValue (seat self))
     else if f = ''movie_session'' then Some (ForeignKey (pk (movie_session self)))
     else if f = ''order'' then Some (ForeignKey (pk (order self)))
     else None)"

text \<open>
  Modelled from the spec: the storage engine's enforcement of a declared uniqueness
  constraint is not part of the repository's source. A row violates the constraint
  against another stored row when both agree on every field the constraint lists; the
  missing key of an unsaved object agrees with nothing.
\<close>

fun violates :: "constraint \<Rightarrow> Ticket \<Rightarrow> Ticket \<Rightarrow> bool" where
  "violates (UniqueConstraint field_names n) self other =
     (pk other \<noteq> pk self
      \<and> list_all (\<lambda>f. Ticket_column self f \<noteq> Some (ForeignKey None)
                      \<and> Ticket_column self f = Ticket_column other f) field_names)"

fun constraint_name :: "constraint \<Rightarrow> string" where
  "constraint_name (UniqueConstraint field_names n) = n"

fun constraint_fields :: "constraint \<Rightarrow> string list" where
  "constraint_fields (UniqueConstraint field_names n) = field_names"

text \<open>
  The validation of the declared constraints that the framework's \<open>full_clean\<close> runs
  after \<open>clean\<close>; it is what the framework supplies for the parameter
  \<open>validate_unique\<close> of \<open>full_clean\<close>. A constraint is skipped when one of its fields
  is excluded because it already has an error. A constraint that a stored ticket
  violates is reported under the key \<open>__all__\<close>, which is no field, with the
  framework's message naming the model and the labels of the constraint's fields. An
  object that has a primary key is taken to have been loaded from the table, so that
  its own row is not held against it.
\<close>

definition field_label :: "string \<Rightarrow> string" where
  "field_label f =
    (if f = ''row'' then ''Row''
     else if f = ''seat'' then ''Seat''
     else if f = ''movie_session'' then ''Movie session''
     else if f = ''order'' then ''Order''
     else f)"

fun get_text_list :: "string list \<Rightarrow> string" where
  "get_text_list [] = []"
| "get_text_list [x] = x"
| "get_text_list [x, y] = x @ '' and '' @ y"
| "get_text_list (x # xs) = x @ '', '' @ get_text_list xs"

definition unique_error_message :: "constraint \<Rightarrow> string" where
  "unique_error_message c =
     ''Ticket with this '' @ get_text_list (map field_label (constraint_fields c))
       @ '' already exists.''"

definition validate_constraints :: "Ticket \<Rightarrow> database \<Rightarrow> string list \<Rightarrow> error_dict" where
  "validate_constraints self db exclude =
    (let violated =
           filter (\<lambda>c. \<not> list_ex (\<lambda>f. f \<in> set exclude) (constraint_fields c)
                        \<and> list_ex (violates c self) (tickets db))
             Ticket_constraints
     in if violated = [] then [] else [(''__all__'', map unique_error_message violated)])"

text \<open>
  Modelled from the spec: the write that \<open>Ticket.save\<close> reaches through \<open>super\<close> is
  the framework's and the storage engine's, and not part of the repository's source. An
  object that refers to an unsaved session or order is refused before anything is
  written. The row is then written as above; a row or seat outside the range of the
  integer column is rejected, a row that violates a declared uniqueness constraint
  against another stored row is rejected with \<open>DuplicateSeat\<close>, and a row whose session
  or order is not stored is rejected. A rejected write leaves the state as it was.
\<close>

definition Model_save ::
  "backend \<Rightarrow> Ticket \<Rightarrow> bool \<Rightarrow> bool \<Rightarrow> database \<Rightarrow> (error + Ticket) \<times> database" where
  "Model_save be self force_insert force_update db =
    (if pk (movie_session self) = None then (Inl (ValueError ''movie_session''), db)
     else if pk (order self) = None then (Inl (ValueError ''order''), db)
     else
       (case write_row self force_insert force_update (tickets db) of
          Inl e \<Rightarrow> (Inl e, db)
        | Inr (self', table) \<Rightarrow>
            if \<not> fits be (row self) then (Inl (ConstraintViolation ''row''), db)
            else if \<not> fits be (seat self) then (Inl (ConstraintViolation ''seat''), db)
            else
              (case find (\<lambda>c. list_ex (violates c self') (tickets db)) Ticket_constraints of
                 Some c \<Rightarrow> (Inl (DuplicateSeat (constraint_name c)), db)
               | None \<Rightarrow>
                   if \<not> references (movie_session self) (movie_sessions db) then
                     (Inl (ConstraintViolation ''movie_session''), db)
                   else if \<not> references (order self) (orders db) then
                     (Inl (ConstraintViolation ''order''), db)
                   else (Inr self', db\<lparr>tickets := table\<rparr>))))"

text \<open>
  The claim that, for a fixed session, the pair (row, seat) is unique across the stored
  tickets, as a property of the ticket table: every stored ticket has a primary key, no
  two have the same one, and no two have the same session, row and seat.
\<close>

definition seat_key :: "Ticket \<Rightarrow> nat option \<times> int \<times> int" where
  "seat_key t = (pk (movie_session t), row t, seat t)"

definition tickets_ok :: "Ticket list \<Rightarrow> bool" where
  "tickets_ok ts =
     (list_all (\<lambda>t. pk t \<noteq> None) ts \<and> distinct (map pk ts) \<and> distinct (map seat_key ts))"

subsection \<open>\<open>CinemaHall\<close>: persistence\<close>

text \<open>
  \<open>CinemaHall\<close> declares \<open>name\<close> as \<open>CharField(max_length=255)\<close>, \<open>rows\<close> and
  \<open>seats_in_row\<close> as \<open>IntegerField()\<close>, and no validator, no \<open>clean\<close>, no \<open>save\<close>
  and no \<open>Meta\<close>: its write is the write of one row into columns of these types. A
  name longer than the column is rejected where the storage engine enforces the
  length, and a dimension outside the range of the integer column is rejected.
\<close>

definition CinemaHall_save ::
  "backend \<Rightarrow> CinemaHall \<Rightarrow> bool \<Rightarrow> bool \<Rightarrow> database \<Rightarrow> (error + CinemaHall) \<times> database" where
  "CinemaHall_save be self force_insert force_update db =
    (case write_row self force_insert force_update (cinema_halls db) of
       Inl e \<Rightarrow> (Inl e, db)
     | Inr (self', table) \<Rightarrow>
         if enforces_max_length be \<and> 255 < length (name self) then
           (Inl (ConstraintViolation ''name''), db)
         else if \<not> fits be (rows self) then (Inl (ConstraintViolation ''rows''), db)
         else if \<not> fits be (seats_in_row self) then (Inl (ConstraintViolation ''seats_in_row''), db)
         else (Inr self', db\<lparr>cinema_halls := table\<rparr>))"

subsection \<open>\<open>Order.Meta\<close>: the default ordering\<close>

definition Order_ordering :: "string list" where
  "Order_ordering = [''-created_at'']"

definition Order_field :: "string \<Rightarrow> Order \<Rightarrow> int" where
  "Order_field f r =
    (if f = ''created_at'' then created_at r
     else (case pk r of None \<Rightarrow> 0 | Some k \<Rightarrow> int k))"

text \<open>
  Modelled from the spec: the evaluation of a query under the declared ordering is not
  part of the repository's source. An entry of \<open>ordering\<close> names a field; a leading
  \<open>-\<close> asks for descending order. The rows are sorted by the entries from the last to
  the first, each sort keeping the order of rows with equal keys.
\<close>

definition order_by :: "string \<Rightarrow> Order list \<Rightarrow> Order list" where
  "order_by f table =
    (if f \<noteq> [] \<and> hd f = CHR ''-''
     then sort_key (\<lambda>r. - Order_field (tl f) r) table
     else sort_key (Order_field f) table)"

definition Order_objects_all :: "database \<Rightarrow> Order list" where
  "Order_objects_all db = foldr order_by Order_ordering (orders db)"

subsection \<open>Deletion\<close>

text \<open>
  Modelled from the spec: the deletion of a row is not part of the repository's
  source. \<open>Ticket.movie_session\<close> and \<open>Ticket.order\<close> are declared with
  \<open>on_delete=CASCADE\<close>: deleting the session or the order with primary key \<open>k\<close>
  removes that row and the tickets whose foreign key is \<open>k\<close>.
\<close>

definition MovieSession_delete :: "nat \<Rightarrow> database \<Rightarrow> database" where
  "MovieSession_delete k db =
     db\<lparr>movie_sessions := filter (\<lambda>s. pk s \<noteq> Some k) (movie_sessions db),
        tickets := filter (\<lambda>t. pk (movie_session t) \<noteq> Some k) (tickets db)\<rparr>"

definition Order_delete :: "nat \<Rightarrow> database \<Rightarrow> database" where
  "Order_delete k db =
     db\<lparr>orders := filter (\<lambda>r. pk r \<noteq> Some k) (orders db),
        tickets := filter (\<lambda>t. pk (order t) \<noteq> Some k) (tickets db)\<rparr>"

section \<open>Reading results, and example objects\<close>

text \<open>The fields for which a validation result carries messages.\<close>

definition error_fields :: "error + 'a \<Rightarrow> string list" where
  "error_fields r = (case r of Inl (ValidationError d c) \<Rightarrow> map fst d | _ \<Rightarrow> [])"

definition example_hall :: CinemaHall where
  "example_hall = \<lparr>pk = Some 1, name = ''Blue'', rows = 10, seats_in_row = 15\<rparr>"

definition example_movie :: Movie where
  "example_movie =
     \<lparr>pk = Some 1, title = ''Matrix'', description = ''Sci-fi'', actors = [], genres = []\<rparr>"

definition example_session :: MovieSession where
  "example_session =
     \<lparr>pk = Some 1, show_time = 100, cinema_hall = example_hall, movie = example_movie\<rparr>"

definition example_user :: User where
  "example_user = \<lparr>pk = Some 1, username = ''alice''\<rparr>"

definition example_order :: "nat \<Rightarrow> datetime \<Rightarrow> Order" where
  "example_order k t = \<lparr>pk = Some k, created_at = t, user = example_user\<rparr>"

definition example_ticket :: "int \<Rightarrow> int \<Rightarrow> Ticket" where
  "example_ticket r s =
     \<lparr>pk = None, movie_session = example_session, order = example_order 1 50,
      row = r, seat = s\<rparr>"

definition example_db :: database where
  "example_db =
     \<lparr>cinema_halls = [example_hall], movie_sessions = [example_session],
      orders = [example_order 1 50], tickets = []\<rparr>"

definition example_backend :: backend where
  "example_backend =
     \<lparr>integer_min = - 2147483648, integer_max = 2147483647, enforces_max_length = True\<rparr>"

definition example_taken_db :: database where
  "example_taken_db = example_db\<lparr>tickets := [(example_ticket 3 4)\<lparr>pk := Some 1\<rparr>]\<rparr>"

definition example_void_hall :: CinemaHall where
  "example_void_hall = \<lparr>pk = None, name = ''Void'', rows = 0, seats_in_row = - 3\<rparr>"

definition example_orders_db :: database where
  "example_orders_db =
     \<lparr>cinema_halls = [], movie_sessions = [],
      orders = [example_order 2 20, example_order 1 10, example_order 3 30], tickets = []\<rparr>"

definition example_booked_db :: database where
  "example_booked_db =
     \<lparr>cinema_halls = [example_hall],
      movie_sessions = [example_session, example_session\<lparr>pk := Some 2\<rparr>],
      orders = [example_order 1 50, example_order 2 60],
      tickets =
        [\<lparr>pk = Some 1, movie_session = example_session, order = example_order 1 50,
          row = 1, seat = 1\<rparr>,
         \<lparr>pk = Some 2, movie_session = example_session\<lparr>pk := Some 2\<rparr>,
          order = example_order 1 50, row = 1, seat = 1\<rparr>,
         \<lparr>pk = Some 3, movie_session = example_session, order = example_order 2 60,
          row = 2, seat = 2\<rparr>]\<rparr>"

lemmas example_defs =
  example_hall_def example_movie_def example_session_def example_user_def
  example_order_def example_ticket_def example_db_def

section \<open>Record updates\<close>

lemma movie_session_pk_update [simp]:
  "movie_session ((self::Ticket)\<lparr>pk := k\<rparr>) = movie_session self"
  by (cases self) simp

lemma order_pk_update [simp]:
  "order ((self::Ticket)\<lparr>pk := k\<rparr>) = order self"
  by (cases self) simp

section \<open>Integer formatting\<close>

lemma str_nat_digit: "n < 10 \<Longrightarrow> str_nat n = [digit_char n]"
  by (simp add: str_nat.simps)

lemma str_nat_more:
  "\<not> n < 10 \<Longrightarrow> str_nat n = str_nat (n div 10) @ [digit_char (n mod 10)]"
  by (subst str_nat.simps) simp

lemmas str_eval = str_int_def str_nat_digit str_nat_more digit_char_def

section \<open>\<open>CinemaHall.capacity\<close>\<close>

text \<open>
  C6: for every cinema hall the derived attribute \<open>capacity\<close> equals
  \<open>rows * seats_in_row\<close>; a hall with 10 rows of 15 seats has capacity 150.
\<close>

theorem capacity_is_rows_times_seats:
  "capacity self = rows self * seats_in_row self
   \<and> (rows self = 10 \<and> seats_in_row self = 15 \<longrightarrow> capacity self = 150)"
  by (simp add: capacity_def)

theorem capacity_is_rows_times_seats_witness:
  "rows example_hall = 10 \<and> seats_in_row example_hall = 15 \<and> capacity example_hall = 150"
  using capacity_is_rows_times_seats [of example_hall]
  by (simp add: example_hall_def)

section \<open>\<open>Ticket.clean\<close>\<close>

lemma clean_row_error:
  "\<not> (1 \<le> row self \<and> row self \<le> rows (cinema_hall (movie_session self))) \<Longrightarrow>
   clean self = Inl (ValidationError
     [(''row'', [''row number must be in available range: (1, rows): (1, ''
        @ str_int (rows (cinema_hall (movie_session self))) @ '')''])]
     (Some ''seat_out_of_range''))"
  by (simp add: clean_def Let_def)

lemma clean_seat_error:
  "1 \<le> row self \<Longrightarrow> row self \<le> rows (cinema_hall (movie_session self)) \<Longrightarrow>
   \<not> (1 \<le> seat self \<and> seat self \<le> seats_in_row (cinema_hall (movie_session self))) \<Longrightarrow>
   clean self = Inl (ValidationError
     [(''seat'', [''seat number must be in available range: (1, seats_in_row): (1, ''
        @ str_int (seats_in_row (cinema_hall (movie_session self))) @ '')''])]
     (Some ''seat_out_of_range''))"
  by (simp add: clean_def Let_def)

lemma clean_passes:
  "1 \<le> row self \<Longrightarrow> row self \<le> rows (cinema_hall (movie_session self)) \<Longrightarrow>
   1 \<le> seat self \<Longrightarrow> seat self \<le> seats_in_row (cinema_hall (movie_session self)) \<Longrightarrow>
   clean self = Inr ()"
  by (simp add: clean_def Let_def)

lemma clean_ignores_seat:
  "\<not> (1 \<le> row self \<and> row self \<le> rows (cinema_hall (movie_session self))) \<Longrightarrow>
   clean (self\<lparr>seat := s\<rparr>) = clean self"
  by (simp add: clean_def Let_def)

lemma clean_cases:
  "clean self = Inr () \<or> error_fields (clean self) = [''row''] \<or> error_fields (clean self) = [''seat'']"
  by (simp add: clean_def Let_def error_fields_def)

text \<open>
  C3: for every hall with \<open>R\<close> rows and \<open>S\<close> seats in a row and every ticket with
  row in \<open>[1, R]\<close> and seat in \<open>[1, S]\<close>, \<open>clean\<close> raises nothing and returns normally.
\<close>

theorem clean_accepts_in_range:
  assumes "rows (cinema_hall (movie_session self)) = R"
    and "seats_in_row (cinema_hall (movie_session self)) = S"
    and "1 \<le> row self" and "row self \<le> R"
    and "1 \<le> seat self" and "seat self \<le> S"
  shows "clean self = Inr ()"
  using assms by (simp add: clean_passes)

theorem clean_accepts_in_range_witness:
  "clean (example_ticket 1 1) = Inr () \<and> clean (example_ticket 10 15) = Inr ()"
  using clean_accepts_in_range [of "example_ticket 1 1" 10 15]
    clean_accepts_in_range [of "example_ticket 10 15" 10 15]
  by (simp add: example_defs)

text \<open>
  C10: \<open>clean\<close> stops at the row check. For every ticket whose row is out of range the
  result is the error for the field \<open>row\<close> alone, whatever the seat is (replacing the
  seat by any other value gives the same result); an error for the field \<open>seat\<close> is
  produced only when the row is within range.
\<close>

theorem clean_stops_at_row:
  "(\<not> (1 \<le> row self \<and> row self \<le> rows (cinema_hall (movie_session self))) \<longrightarrow>
      clean self = Inl (ValidationError
        [(''row'', [''row number must be in available range: (1, rows): (1, ''
           @ str_int (rows (cinema_hall (movie_session self))) @ '')''])]
        (Some ''seat_out_of_range''))
      \<and> error_fields (clean self) = [''row'']
      \<and> clean (self\<lparr>seat := s\<rparr>) = clean self)
   \<and> (''seat'' \<in> set (error_fields (clean self)) \<longrightarrow>
      1 \<le> row self \<and> row self \<le> rows (cinema_hall (movie_session self)))"
proof (cases "1 \<le> row self \<and> row self \<le> rows (cinema_hall (movie_session self))")
  case True
  then show ?thesis by simp
next
  case False
  then have "clean self = Inl (ValidationError
        [(''row'', [''row number must be in available range: (1, rows): (1, ''
           @ str_int (rows (cinema_hall (movie_session self))) @ '')''])]
        (Some ''seat_out_of_range''))"
    by (rule clean_row_error)
  moreover from this have "error_fields (clean self) = [''row'']"
    by (simp add: error_fields_def)
  moreover have "clean (self\<lparr>seat := s\<rparr>) = clean self"
    using False by (rule clean_ignores_seat)
  ultimately show ?thesis by simp
qed

theorem clean_stops_at_row_witness:
  "clean (example_ticket 0 99) = Inl (ValidationError
        [(''row'', [''row number must be in available range: (1, rows): (1, 10)''])]
        (Some ''seat_out_of_range''))
   \<and> clean ((example_ticket 0 99)\<lparr>seat := 3\<rparr>) = clean (example_ticket 0 99)
   \<and> ''seat'' \<in> set (error_fields (clean (example_ticket 4 0)))
   \<and> 1 \<le> row (example_ticket 4 0)"
  using clean_stops_at_row [of "example_ticket 0 99" 3] clean_stops_at_row [of "example_ticket 4 0" 0]
  by (simp add: example_defs str_eval clean_def error_fields_def)

text \<open>
  C1, as stated, fails: with row 0 and seat 0 in a hall of 10 rows and 15 seats both
  values are out of range and the result has no entry for the field \<open>seat\<close>.
\<close>

theorem clean_both_out_of_range_counterexample:
  "\<not> (1 \<le> row (example_ticket 0 0)
        \<and> row (example_ticket 0 0) \<le> rows (cinema_hall (movie_session (example_ticket 0 0))))
   \<and> \<not> (1 \<le> seat (example_ticket 0 0)
        \<and> seat (example_ticket 0 0) \<le> seats_in_row (cinema_hall (movie_session (example_ticket 0 0))))
   \<and> \<not> (''row'' \<in> set (error_fields (clean (example_ticket 0 0)))
        \<and> ''seat'' \<in> set (error_fields (clean (example_ticket 0 0))))"
  by (simp add: example_defs clean_def error_fields_def)

text \<open>
  C1, amended: for every ticket whose row and seat are both out of range for its
  session's cinema hall, \<open>clean\<close> reports the first failing check only: the result has an
  entry for the field \<open>row\<close> and none for the field \<open>seat\<close>.
\<close>

theorem clean_both_out_of_range_reports_row_only:
  assumes "\<not> (1 \<le> row self \<and> row self \<le> rows (cinema_hall (movie_session self)))"
    and "\<not> (1 \<le> seat self \<and> seat self \<le> seats_in_row (cinema_hall (movie_session self)))"
  shows "error_fields (clean self) = [''row'']
         \<and> ''row'' \<in> set (error_fields (clean self))
         \<and> ''seat'' \<notin> set (error_fields (clean self))"
  using clean_row_error [OF assms(1)] by (simp add: error_fields_def)

theorem clean_both_out_of_range_reports_row_only_witness:
  "error_fields (clean (example_ticket 11 16)) = [''row'']
   \<and> ''row'' \<in> set (error_fields (clean (example_ticket 11 16)))
   \<and> ''seat'' \<notin> set (error_fields (clean (example_ticket 11 16)))"
  using clean_both_out_of_range_reports_row_only [of "example_ticket 11 16"]
  by (simp add: example_defs)

text \<open>
  C4, as stated, fails in its second half: with row 11 and seat 16 in a hall of 10 rows
  and 15 seats the seat lies outside \<open>[1, 15]\<close>, yet the error names the field \<open>row\<close>
  and not the field \<open>seat\<close>.
\<close>

theorem clean_seat_out_of_range_counterexample:
  "\<not> (1 \<le> seat (example_ticket 11 16)
        \<and> seat (example_ticket 11 16)
            \<le> seats_in_row (cinema_hall (movie_session (example_ticket 11 16))))
   \<and> ''seat'' \<notin> set (error_fields (clean (example_ticket 11 16)))"
  by (simp add: example_defs clean_def error_fields_def)

text \<open>
  C4, amended: for every ticket, if its row lies outside \<open>[1, rows]\<close>, \<open>clean\<close> fails
  with a \<open>seat_out_of_range\<close> error that names the field \<open>row\<close> and reports the range
  \<open>(1, rows)\<close>; if its row lies within range and its seat lies outside
  \<open>[1, seats_in_row]\<close>, \<open>clean\<close> fails with a \<open>seat_out_of_range\<close> error that names the
  field \<open>seat\<close> and reports the range \<open>(1, seats_in_row)\<close>. The boundary values row 0,
  row \<open>rows + 1\<close>, seat 0 and seat \<open>seats_in_row + 1\<close> all fail.
\<close>

theorem clean_rejects_out_of_range:
  assumes "rows (cinema_hall (movie_session self)) = R"
    and "seats_in_row (cinema_hall (movie_session self)) = S"
  shows "(\<not> (1 \<le> row self \<and> row self \<le> R) \<longrightarrow>
            clean self = Inl (ValidationError
              [(''row'', [''row number must be in available range: (1, rows): (1, ''
                 @ str_int R @ '')''])]
              (Some ''seat_out_of_range'')))
       \<and> (1 \<le> row self \<and> row self \<le> R \<and> \<not> (1 \<le> seat self \<and> seat self \<le> S) \<longrightarrow>
            clean self = Inl (ValidationError
              [(''seat'', [''seat number must be in available range: (1, seats_in_row): (1, ''
                 @ str_int S @ '')''])]
              (Some ''seat_out_of_range'')))
       \<and> (row self = 0 \<or> row self = R + 1 \<or> seat self = 0 \<or> seat self = S + 1 \<longrightarrow>
            (\<exists>d. clean self = Inl (ValidationError d (Some ''seat_out_of_range''))))"
proof (intro conjI impI)
  assume "\<not> (1 \<le> row self \<and> row self \<le> R)"
  then show "clean self = Inl (ValidationError
              [(''row'', [''row number must be in available range: (1, rows): (1, ''
                 @ str_int R @ '')''])]
              (Some ''seat_out_of_range''))"
    using clean_row_error [of self] assms(1) by simp
next
  assume "1 \<le> row self \<and> row self \<le> R \<and> \<not> (1 \<le> seat self \<and> seat self \<le> S)"
  then show "clean self = Inl (ValidationError
              [(''seat'', [''seat number must be in available range: (1, seats_in_row): (1, ''
                 @ str_int S @ '')''])]
              (Some ''seat_out_of_range''))"
    using clean_seat_error [of self] assms by simp
next
  assume edge: "row self = 0 \<or> row self = R + 1 \<or> seat self = 0 \<or> seat self = S + 1"
  show "\<exists>d. clean self = Inl (ValidationError d (Some ''seat_out_of_range''))"
  proof (cases "1 \<le> row self \<and> row self \<le> R")
    case False
    then show ?thesis using clean_row_error [of self] assms(1) by simp
  next
    case True
    with edge have "\<not> (1 \<le> seat self \<and> seat self \<le> S)" by auto
    with True show ?thesis using clean_seat_error [of self] assms by simp
  qed
qed

theorem clean_rejects_out_of_range_witness:
  "clean (example_ticket 0 5) = Inl (ValidationError
      [(''row'', [''row number must be in available range: (1, rows): (1, 10)''])]
      (Some ''seat_out_of_range''))
   \<and> clean (example_ticket 11 5) = Inl (ValidationError
      [(''row'', [''row number must be in available range: (1, rows): (1, 10)''])]
      (Some ''seat_out_of_range''))
   \<and> clean (example_ticket 5 0) = Inl (ValidationError
      [(''seat'', [''seat number must be in available range: (1, seats_in_row): (1, 15)''])]
      (Some ''seat_out_of_range''))
   \<and> clean (example_ticket 5 16) = Inl (ValidationError
      [(''seat'', [''seat number must be in available range: (1, seats_in_row): (1, 15)''])]
      (Some ''seat_out_of_range''))"
  using clean_rejects_out_of_range [of "example_ticket 0 5" 10 15]
    clean_rejects_out_of_range [of "example_ticket 11 5" 10 15]
    clean_rejects_out_of_range [of "example_ticket 5 0" 10 15]
    clean_rejects_out_of_range [of "example_ticket 5 16" 10 15]
  by (simp add: example_defs str_eval)

section \<open>\<open>Ticket.save\<close>\<close>

lemma keys_add_field_errors:
  "fst ` set (add_field_errors field msgs errors) = insert field (fst ` set errors)"
proof (induction errors)
  case Nil
  show ?case by simp
next
  case (Cons entry errors)
  obtain f ms where entry: "entry = (f, ms)" by (cases entry)
  show ?case
  proof (cases "f = field")
    case True
    then show ?thesis by (simp add: entry)
  next
    case False
    then show ?thesis by (simp add: entry Cons.IH insert_commute)
  qed
qed

lemma keys_update_error_dict:
  "fst ` set (update_error_dict new errors) = fst ` set new \<union> fst ` set errors"
proof (induction new arbitrary: errors)
  case Nil
  show ?case by simp
next
  case (Cons entry new)
  obtain field msgs where entry: "entry = (field, msgs)" by (cases entry)
  show ?case by (simp add: entry Cons.IH keys_add_field_errors)
qed

lemma clean_error_shape:
  "clean self = Inl e \<Longrightarrow>
   \<exists>field msg. e = ValidationError [(field, [msg])] (Some ''seat_out_of_range'')"
  by (auto simp: clean_def Let_def split: if_splits)

lemma full_clean_fails_when_clean_fails:
  assumes "clean self = Inl e"
  shows "\<exists>errors. full_clean cf vu self db = Inl (ValidationError errors None)
           \<and> set (error_fields (clean self)) \<subseteq> fst ` set errors"
proof -
  from assms obtain field msg
    where e: "e = ValidationError [(field, [msg])] (Some ''seat_out_of_range'')"
    using clean_error_shape by blast
  define merged where "merged = update_error_dict [(field, [msg])] (cf self db)"
  define final where "final = update_error_dict (vu self db (map fst merged)) merged"
  have "field \<in> fst ` set merged"
    unfolding merged_def keys_update_error_dict by simp
  then have in_final: "field \<in> fst ` set final"
    unfolding final_def keys_update_error_dict by simp
  then have "final \<noteq> []" by auto
  then have "full_clean cf vu self db = Inl (ValidationError final None)"
    using assms unfolding full_clean_def e final_def merged_def by (simp add: Let_def)
  moreover have "set (error_fields (clean self)) \<subseteq> fst ` set final"
    using in_final assms by (simp add: e error_fields_def)
  ultimately show ?thesis by blast
qed

lemma full_clean_passes_only_when_clean_passes:
  assumes "full_clean cf vu self db = Inr ()"
  shows "clean self = Inr ()"
proof (cases "clean self")
  case (Inl e)
  then show ?thesis
    using full_clean_fails_when_clean_fails [of self e cf vu db] assms by auto
next
  case (Inr u)
  then show ?thesis by simp
qed

lemma save_stops_on_error:
  "full_clean cf vu self db = Inl e \<Longrightarrow> save cf vu super_save self fi fu db = (Inl e, db)"
  by (simp add: save_def)

lemma save_writes_after_validation:
  "full_clean cf vu self db = Inr () \<Longrightarrow>
   save cf vu super_save self fi fu db = super_save self fi fu db"
  by (simp add: save_def)

lemma full_clean_example_bad:
  "full_clean (\<lambda>t d. []) (\<lambda>t d ex. []) (example_ticket 0 3) example_db =
    Inl (ValidationError
      [(''row'', [''row number must be in available range: (1, rows): (1, 10)''])] None)"
  by (simp add: full_clean_def clean_def example_defs str_eval)

lemma full_clean_example_good:
  "full_clean (\<lambda>t d. []) (\<lambda>t d ex. []) (example_ticket 2 3) example_db = Inr ()"
  by (simp add: full_clean_def clean_def example_defs)

text \<open>
  C5: every persistence of a ticket through \<open>save\<close>, create or update, runs the
  validator first. When validation fails, \<open>save\<close> returns that error and the stored
  state it was given, whatever the inherited write would have done: the write is not
  attempted. A failing \<open>clean\<close> makes validation fail with its field in the error. The
  inherited write is reached, with the same flags, only after validation passed, so
  every successful \<open>save\<close> is of a ticket that \<open>clean\<close> accepts.
\<close>

theorem save_validates_before_writing:
  "(\<forall>e. full_clean cf vu self db = Inl e \<longrightarrow>
        save cf vu super_save self fi fu db = (Inl e, db))
   \<and> (\<forall>e. clean self = Inl e \<longrightarrow>
        (\<exists>errors. save cf vu super_save self fi fu db = (Inl (ValidationError errors None), db)
           \<and> set (error_fields (clean self)) \<subseteq> fst ` set errors))
   \<and> (full_clean cf vu self db = Inr () \<longrightarrow>
        clean self = Inr ()
        \<and> save cf vu super_save self fi fu db = super_save self fi fu db)
   \<and> (\<forall>self' db'. save cf vu super_save self fi fu db = (Inr self', db') \<longrightarrow>
        clean self = Inr ())"
proof (intro conjI allI impI)
  fix e assume "full_clean cf vu self db = Inl e"
  then show "save cf vu super_save self fi fu db = (Inl e, db)"
    by (rule save_stops_on_error)
next
  fix e assume "clean self = Inl e"
  then obtain errors where "full_clean cf vu self db = Inl (ValidationError errors None)"
    and "set (error_fields (clean self)) \<subseteq> fst ` set errors"
    using full_clean_fails_when_clean_fails [of self e cf vu db] by blast
  then show "\<exists>errors. save cf vu super_save self fi fu db = (Inl (ValidationError errors None), db)
           \<and> set (error_fields (clean self)) \<subseteq> fst ` set errors"
    by (simp add: save_def)
next
  assume "full_clean cf vu self db = Inr ()"
  then show "clean self = Inr ()" by (rule full_clean_passes_only_when_clean_passes)
next
  assume "full_clean cf vu self db = Inr ()"
  then show "save cf vu super_save self fi fu db = super_save self fi fu db"
    by (rule save_writes_after_validation)
next
  fix self' db' assume ok: "save cf vu super_save self fi fu db = (Inr self', db')"
  show "clean self = Inr ()"
  proof (cases "full_clean cf vu self db")
    case (Inl e)
    with ok show ?thesis by (simp add: save_def)
  next
    case (Inr u)
    then show ?thesis using full_clean_passes_only_when_clean_passes [of cf vu self db] by simp
  qed
qed

theorem save_validates_before_writing_witness:
  "save (\<lambda>t d. []) (\<lambda>t d ex. []) (Model_save example_backend)
      (example_ticket 0 3) False False example_db =
     (Inl (ValidationError
        [(''row'', [''row number must be in available range: (1, rows): (1, 10)''])] None),
      example_db)
   \<and> full_clean (\<lambda>t d. []) (\<lambda>t d ex. []) (example_ticket 2 3) example_db = Inr ()
   \<and> clean (example_ticket 2 3) = Inr ()
   \<and> save (\<lambda>t d. []) (\<lambda>t d ex. []) (Model_save example_backend)
      (example_ticket 2 3) False False example_db =
     Model_save example_backend (example_ticket 2 3) False False example_db"
  using save_validates_before_writing
      [of "\<lambda>t d. []" "\<lambda>t d ex. []" "example_ticket 0 3" example_db
        "Model_save example_backend" False False]
    save_validates_before_writing
      [of "\<lambda>t d. []" "\<lambda>t d ex. []" "example_ticket 2 3" example_db
        "Model_save example_backend" False False]
  by (simp add: full_clean_example_bad full_clean_example_good)

section \<open>The default ordering of \<open>Order.Meta\<close>\<close>

lemma Order_objects_all_sort:
  "Order_objects_all db = sort_key (\<lambda>r. - created_at r) (orders db)"
  by (simp add: Order_objects_all_def Order_ordering_def order_by_def Order_field_def)

lemma descending_unique:
  fixes key :: "'a \<Rightarrow> int"
  assumes sorted: "sorted (map (\<lambda>r. - key r) xs)"
    and perm: "mset xs = {#a, b, c#}"
    and lt: "key a < key b" "key b < key c"
  shows "xs = [c, b, a]"
proof -
  let ?f = "\<lambda>r. - key r"
  have set_xs: "set xs = {a, b, c}"
    using perm by (metis mset_eq_setD set_mset_add_mset_insert set_mset_empty set_mset_mset)
  have "image_mset ?f (mset xs) = image_mset ?f {#a, b, c#}"
    using perm by simp
  then have "mset (map ?f xs) = mset (map ?f [c, b, a])"
    by (simp add: add_mset_commute)
  then have "distinct (map ?f xs) = distinct (map ?f [c, b, a])"
    by (rule mset_eq_imp_distinct_iff)
  then have dist: "distinct (map ?f xs)" using lt by simp
  have inj: "inj_on ?f (set xs \<union> set [c, b, a])"
    using lt by (auto simp: set_xs inj_on_def)
  show ?thesis
    by (rule map_sorted_distinct_set_unique [OF inj sorted dist])
       (use lt set_xs in auto)
qed

text \<open>
  C7: the default listing of the orders is sorted by \<open>created_at\<close>, most recent first,
  and holds exactly the stored orders; orders created at times \<open>T1 < T2 < T3\<close> are
  listed as \<open>[T3, T2, T1]\<close>, in whatever order they are stored.
\<close>

theorem Order_default_listing_is_most_recent_first:
  "sorted_wrt (\<lambda>a b. created_at a \<ge> created_at b) (Order_objects_all db)
   \<and> mset (Order_objects_all db) = mset (orders db)
   \<and> (created_at o1 < created_at o2 \<and> created_at o2 < created_at o3
        \<and> mset (orders db) = {#o1, o2, o3#}
      \<longrightarrow> Order_objects_all db = [o3, o2, o1])"
proof (intro conjI impI)
  have "sorted (map (\<lambda>r. - created_at r) (Order_objects_all db))"
    unfolding Order_objects_all_sort by (rule sorted_sort_key)
  then show "sorted_wrt (\<lambda>a b. created_at a \<ge> created_at b) (Order_objects_all db)"
    by (simp add: sorted_map)
next
  show "mset (Order_objects_all db) = mset (orders db)"
    by (simp add: Order_objects_all_sort)
next
  assume a: "created_at o1 < created_at o2 \<and> created_at o2 < created_at o3
        \<and> mset (orders db) = {#o1, o2, o3#}"
  have "sorted (map (\<lambda>r. - created_at r) (Order_objects_all db))"
    unfolding Order_objects_all_sort by (rule sorted_sort_key)
  moreover have "mset (Order_objects_all db) = {#o1, o2, o3#}"
    using a by (simp add: Order_objects_all_sort)
  ultimately show "Order_objects_all db = [o3, o2, o1]"
    using a by (intro descending_unique) auto
qed

theorem Order_default_listing_is_most_recent_first_witness:
  "created_at (example_order 1 10) < created_at (example_order 2 20)
   \<and> created_at (example_order 2 20) < created_at (example_order 3 30)
   \<and> orders example_orders_db = [example_order 2 20, example_order 1 10, example_order 3 30]
   \<and> Order_objects_all example_orders_db
       = [example_order 3 30, example_order 2 20, example_order 1 10]"
  using Order_default_listing_is_most_recent_first
    [of example_orders_db "example_order 1 10" "example_order 2 20" "example_order 3 30"]
  by (simp add: example_orders_db_def example_order_def)

section \<open>Cascading deletion\<close>

text \<open>
  C8: deleting a session removes exactly the tickets that refer to it, and deleting an
  order removes exactly the tickets that refer to it; the other tickets stay, in their
  order, and the other tables lose nothing but the deleted row.
\<close>

theorem delete_cascades_to_tickets:
  "tickets (MovieSession_delete k db) = filter (\<lambda>t. pk (movie_session t) \<noteq> Some k) (tickets db)
   \<and> (\<forall>t \<in> set (tickets (MovieSession_delete k db)). pk (movie_session t) \<noteq> Some k)
   \<and> (\<forall>t \<in> set (tickets db).
         pk (movie_session t) \<noteq> Some k \<longrightarrow> t \<in> set (tickets (MovieSession_delete k db)))
   \<and> movie_sessions (MovieSession_delete k db) = filter (\<lambda>s. pk s \<noteq> Some k) (movie_sessions db)
   \<and> orders (MovieSession_delete k db) = orders db
   \<and> cinema_halls (MovieSession_delete k db) = cinema_halls db
   \<and> tickets (Order_delete k db) = filter (\<lambda>t. pk (order t) \<noteq> Some k) (tickets db)
   \<and> (\<forall>t \<in> set (tickets (Order_delete k db)). pk (order t) \<noteq> Some k)
   \<and> (\<forall>t \<in> set (tickets db).
         pk (order t) \<noteq> Some k \<longrightarrow> t \<in> set (tickets (Order_delete k db)))
   \<and> orders (Order_delete k db) = filter (\<lambda>r. pk r \<noteq> Some k) (orders db)
   \<and> movie_sessions (Order_delete k db) = movie_sessions db
   \<and> cinema_halls (Order_delete k db) = cinema_halls db"
  by (simp add: MovieSession_delete_def Order_delete_def)

theorem delete_cascades_to_tickets_witness:
  "tickets (MovieSession_delete 1 example_booked_db) =
     [\<lparr>pk = Some 2, movie_session = example_session\<lparr>pk := Some 2\<rparr>,
       order = example_order 1 50, row = 1, seat = 1\<rparr>]
   \<and> movie_sessions (MovieSession_delete 1 example_booked_db) = [example_session\<lparr>pk := Some 2\<rparr>]
   \<and> orders (MovieSession_delete 1 example_booked_db) = orders example_booked_db
   \<and> tickets (Order_delete 1 example_booked_db) =
     [\<lparr>pk = Some 3, movie_session = example_session, order = example_order 2 60,
       row = 2, seat = 2\<rparr>]
   \<and> orders (Order_delete 1 example_booked_db) = [example_order 2 60]
   \<and> movie_sessions (Order_delete 1 example_booked_db) = movie_sessions example_booked_db"
  using delete_cascades_to_tickets [of 1 example_booked_db]
  by (simp add: example_booked_db_def example_defs)

section \<open>The uniqueness constraint of \<open>Ticket.Meta\<close>\<close>

subsection \<open>Fresh keys and the keys of a table\<close>

lemma fold_max_upper: "a \<le> fold max xs a \<and> (\<forall>k \<in> set xs. k \<le> fold max xs (a::nat))"
proof (induction xs arbitrary: a)
  case Nil
  show ?case by simp
next
  case (Cons x xs)
  have "max x a \<le> fold max xs (max x a)" and "\<forall>k \<in> set xs. k \<le> fold max xs (max x a)"
    using Cons.IH [of "max x a"] by simp_all
  then show ?case by auto
qed

lemma fresh_pk_not_stored: "fresh_pk table \<notin> set (pks table)"
proof
  assume "fresh_pk table \<in> set (pks table)"
  then have "fresh_pk table \<le> fold max (pks table) 0"
    using fold_max_upper [of 0 "pks table"] by blast
  then show False by (simp add: fresh_pk_def)
qed

lemma set_pks: "k \<in> set (pks table) \<longleftrightarrow> Some k \<in> pk ` set table"
  by (induction table) (auto simp: pks_def split: option.splits)

subsection \<open>Writes keep the seats unique\<close>

lemma violates_seat_key:
  "violates (UniqueConstraint [''row'', ''seat'', ''movie_session''] n) self other \<longleftrightarrow>
     pk other \<noteq> pk self \<and> seat_key self = seat_key other \<and> pk (movie_session self) \<noteq> None"
  by (auto simp: Ticket_column_def seat_key_def)

lemma seat_key_pk_update [simp]: "seat_key (self\<lparr>pk := k\<rparr>) = seat_key self"
  by (simp add: seat_key_def)

lemma replace_keeps_pks:
  "pk self = Some k \<Longrightarrow> map pk (map (\<lambda>r. if pk r = Some k then self else r) ts) = map pk ts"
  by (induction ts) auto

lemma replace_absent:
  "Some k \<notin> pk ` set ts \<Longrightarrow> map (\<lambda>r. if pk r = Some k then self else r) ts = ts"
  by (induction ts) auto

lemma replace_keeps_distinct_keys:
  assumes "distinct (map pk ts)" and "distinct (map seat_key ts)"
    and "\<forall>other \<in> set ts. pk other \<noteq> Some k \<longrightarrow> seat_key other \<noteq> seat_key self"
  shows "distinct (map seat_key (map (\<lambda>r. if pk r = Some k then self else r) ts))"
  using assms
proof (induction ts)
  case Nil
  show ?case by simp
next
  case (Cons r rs)
  let ?upd = "\<lambda>r. if pk r = Some k then self else r"
  have IH: "distinct (map seat_key (map ?upd rs))"
    using Cons by simp
  show ?case
  proof (cases "pk r = Some k")
    case True
    then have "Some k \<notin> pk ` set rs" using Cons.prems(1) by auto
    then have same: "map ?upd rs = rs" by (rule replace_absent)
    have "seat_key self \<notin> seat_key ` set rs"
    proof
      assume "seat_key self \<in> seat_key ` set rs"
      then obtain other where other: "other \<in> set rs" "seat_key other = seat_key self" by auto
      then have "pk other \<noteq> Some k" using \<open>Some k \<notin> pk ` set rs\<close> by force
      then show False using Cons.prems(3) other by auto
    qed
    then show ?thesis using True same Cons.prems(2) by simp
  next
    case False
    have notin: "seat_key r \<notin> set (map seat_key (map ?upd rs))"
    proof
      assume "seat_key r \<in> set (map seat_key (map ?upd rs))"
      then have "seat_key r \<in> (seat_key \<circ> ?upd) ` set rs"
        by (simp only: map_map set_map)
      then obtain x where "x \<in> set rs" and "seat_key r = (seat_key \<circ> ?upd) x"
        by (rule imageE)
      then have x: "x \<in> set rs" "seat_key (?upd x) = seat_key r"
        by (simp_all only: comp_def)
      show False
      proof (cases "pk x = Some k")
        case True
        then have "seat_key self = seat_key r" using x by simp
        then show False using Cons.prems(3) False by auto
      next
        case False
        then have "seat_key x = seat_key r" using x by simp
        moreover have "seat_key r \<notin> seat_key ` set rs" using Cons.prems(2) by simp
        ultimately show False using x(1) by (metis imageI)
      qed
    qed
    have eq: "map seat_key (map ?upd (r # rs)) = seat_key r # map seat_key (map ?upd rs)"
      using False by simp
    show ?thesis unfolding eq distinct.simps using notin IH by (rule conjI)
  qed
qed

lemma write_row_keeps_tickets_ok:
  assumes ok: "tickets_ok ts"
    and written: "write_row self fi fu ts = Inr (self', ts')"
    and free: "\<forall>other \<in> set ts. pk other \<noteq> pk self' \<longrightarrow> seat_key other \<noteq> seat_key self'"
  shows "tickets_ok ts'"
proof (cases "pk self")
  case None
  with written have self': "self' = self\<lparr>pk := Some (fresh_pk ts)\<rparr>" and ts': "ts' = ts @ [self']"
    by (auto simp: write_row_def Let_def split: if_splits)
  have fresh: "Some (fresh_pk ts) \<notin> pk ` set ts"
    using fresh_pk_not_stored [of ts] by (simp add: set_pks)
  moreover have "pk self' = Some (fresh_pk ts)" by (simp add: self')
  ultimately have "\<forall>other \<in> set ts. pk other \<noteq> pk self'" by (metis imageI)
  then have "seat_key self' \<notin> seat_key ` set ts" using free by force
  then show ?thesis
    using ok fresh by (auto simp: tickets_ok_def ts' self')
next
  case (Some k)
  show ?thesis
  proof (cases "k \<in> set (pks ts)")
    case True
    with written Some have self': "self' = self"
      and ts': "ts' = map (\<lambda>r. if pk r = Some k then self else r) ts"
      by (auto simp: write_row_def split: if_splits)
    have "distinct (map seat_key ts')"
      unfolding ts'
      using ok free Some by (intro replace_keeps_distinct_keys) (auto simp: tickets_ok_def self')
    moreover have "map pk ts' = map pk ts"
      unfolding ts' using Some by (rule replace_keeps_pks)
    moreover have "list_all (\<lambda>t. pk t \<noteq> None) ts'"
      using ok Some by (auto simp: ts' tickets_ok_def list_all_iff)
    ultimately show ?thesis using ok by (simp add: tickets_ok_def)
  next
    case False
    with written Some have self': "self' = self" and ts': "ts' = ts @ [self]"
      by (auto simp: write_row_def split: if_splits)
    have absent: "Some k \<notin> pk ` set ts" using False by (simp add: set_pks)
    then have "\<forall>other \<in> set ts. pk other \<noteq> pk self'"
      unfolding self' Some by (metis imageI)
    then have "seat_key self \<notin> seat_key ` set ts" using free self' by force
    then show ?thesis
      using ok absent Some by (auto simp: tickets_ok_def ts')
  qed
qed

lemma write_row_result:
  "write_row self fi fu ts = Inr (self', ts') \<Longrightarrow>
   self' = self \<or> (\<exists>k. self' = self\<lparr>pk := Some k\<rparr>)"
  by (auto simp: write_row_def Let_def split: if_splits option.splits)

lemma Model_save_keeps_tickets_ok:
  assumes "tickets_ok (tickets db)"
  shows "tickets_ok (tickets (snd (Model_save be self fi fu db)))"
proof (cases "pk (movie_session self) = None")
  case True
  then show ?thesis using assms by (simp add: Model_save_def)
next
  case saved: False
  show ?thesis
  proof (cases "write_row self fi fu (tickets db)")
    case (Inl e)
    then show ?thesis using assms by (simp add: Model_save_def)
  next
    case (Inr written)
    obtain self' ts' where written: "written = (self', ts')" by (cases written)
    have "self' = self \<or> (\<exists>k. self' = self\<lparr>pk := Some k\<rparr>)"
      using Inr written by (intro write_row_result) simp
    then have saved': "pk (movie_session self') \<noteq> None"
      using saved by auto
    show ?thesis
    proof (cases "list_ex (violates
        (UniqueConstraint [''row'', ''seat'', ''movie_session''] ''unique_ticket_constraint_name'')
        self') (tickets db)")
      case True
      then show ?thesis
        using assms Inr written by (simp add: Model_save_def Ticket_constraints_def)
    next
      case False
      then have "\<forall>other \<in> set (tickets db).
          pk other \<noteq> pk self' \<longrightarrow> seat_key other \<noteq> seat_key self'"
        unfolding list_ex_iff violates_seat_key using saved' by auto
      then have "tickets_ok ts'"
        using write_row_keeps_tickets_ok [OF assms] Inr written by blast
      then show ?thesis
        using assms Inr written False by (simp add: Model_save_def Ticket_constraints_def)
    qed
  qed
qed

lemma save_keeps_tickets_ok:
  assumes "tickets_ok (tickets db)"
  shows "tickets_ok (tickets (snd (save cf vu (Model_save be) self fi fu db)))"
  using assms Model_save_keeps_tickets_ok [OF assms, of be self fi fu]
  by (cases "full_clean cf vu self db") (simp_all add: save_def)

subsection \<open>A free seat and a taken seat\<close>

lemma write_row_new:
  "pk self = None \<Longrightarrow> \<not> fu \<Longrightarrow>
   write_row self fi fu table =
     Inr (self\<lparr>pk := Some (fresh_pk table)\<rparr>, table @ [self\<lparr>pk := Some (fresh_pk table)\<rparr>])"
  by (simp add: write_row_def Let_def)

lemma write_row_default:
  "\<exists>self' table'. write_row self False False table = Inr (self', table')
     \<and> self' \<in> set table' \<and> (self' = self \<or> (\<exists>k. self' = self\<lparr>pk := Some k\<rparr>))"
  by (cases "pk self") (auto simp: write_row_def Let_def set_pks)

lemma references_saved: "references parent table \<Longrightarrow> pk parent \<noteq> None"
  by (cases "pk parent") (simp_all add: references_def)

lemma validate_constraints_unfold:
  "validate_constraints self db exclude =
    (if \<not> (''row'' \<in> set exclude \<or> ''seat'' \<in> set exclude \<or> ''movie_session'' \<in> set exclude)
        \<and> list_ex (violates
             (UniqueConstraint [''row'', ''seat'', ''movie_session'']
                ''unique_ticket_constraint_name'') self) (tickets db)
     then [(''__all__'', [''Ticket with this Row, Seat and Movie session already exists.''])]
     else [])"
  by (simp add: validate_constraints_def Ticket_constraints_def unique_error_message_def
      field_label_def Let_def)

lemma free_seat_no_violation:
  assumes "seat_key self \<notin> set (map seat_key ts)"
  shows "\<not> list_ex (violates
            (UniqueConstraint [''row'', ''seat'', ''movie_session''] n) (self\<lparr>pk := k\<rparr>)) ts"
  using assms unfolding list_ex_iff violates_seat_key by auto

lemma taken_seat_violation:
  assumes "s \<in> set ts" and "seat_key self = seat_key s" and "pk s \<noteq> pk self"
    and "pk (movie_session self) \<noteq> None"
  shows "list_ex (violates (UniqueConstraint [''row'', ''seat'', ''movie_session''] n) self) ts"
  using assms unfolding list_ex_iff violates_seat_key by auto

lemma full_clean_passes_for_free_seat:
  assumes "cf self db = []" and "clean self = Inr ()"
    and "seat_key self \<notin> set (map seat_key (tickets db))"
  shows "full_clean cf validate_constraints self db = Inr ()"
proof -
  have "\<not> list_ex (violates
            (UniqueConstraint [''row'', ''seat'', ''movie_session'']
               ''unique_ticket_constraint_name'') self) (tickets db)"
    using free_seat_no_violation [OF assms(3), of _ "pk self"] by simp
  then show ?thesis
    using assms(1,2) by (simp add: full_clean_def validate_constraints_unfold)
qed

lemma Model_save_stores_free_seat:
  assumes "pk self = None" and "\<not> fu"
    and "fits be (row self)" and "fits be (seat self)"
    and "references (movie_session self) (movie_sessions db)"
    and "references (order self) (orders db)"
    and "seat_key self \<notin> set (map seat_key (tickets db))"
  shows "Model_save be self fi fu db =
     (Inr (self\<lparr>pk := Some (fresh_pk (tickets db))\<rparr>),
      db\<lparr>tickets := tickets db @ [self\<lparr>pk := Some (fresh_pk (tickets db))\<rparr>]\<rparr>)"
proof -
  have "find (\<lambda>c. list_ex (violates c (self\<lparr>pk := Some (fresh_pk (tickets db))\<rparr>)) (tickets db))
          Ticket_constraints = None"
    using free_seat_no_violation [OF assms(7)] by (simp add: Ticket_constraints_def)
  then show ?thesis
    using assms(3-6) references_saved [OF assms(5)] references_saved [OF assms(6)]
    by (simp add: Model_save_def write_row_new [OF assms(1,2)])
qed

lemma Model_save_rejects_taken_seat:
  assumes "pk self = None" and "\<not> fu"
    and "fits be (row self)" and "fits be (seat self)"
    and "pk (movie_session self) \<noteq> None" and "pk (order self) \<noteq> None"
    and "s \<in> set (tickets db)" and "seat_key self = seat_key s"
  shows "Model_save be self fi fu db = (Inl (DuplicateSeat ''unique_ticket_constraint_name''), db)"
proof -
  have "Some (fresh_pk (tickets db)) \<notin> pk ` set (tickets db)"
    using fresh_pk_not_stored [of "tickets db"] by (simp add: set_pks)
  then have "pk s \<noteq> pk (self\<lparr>pk := Some (fresh_pk (tickets db))\<rparr>)"
    using assms(7) by (metis Model.select_convs(1) Model.surjective Model.update_convs(1) imageI)
  then have "list_ex (violates
       (UniqueConstraint [''row'', ''seat'', ''movie_session''] ''unique_ticket_constraint_name'')
       (self\<lparr>pk := Some (fresh_pk (tickets db))\<rparr>)) (tickets db)"
    using assms(5,7,8) by (intro taken_seat_violation [of s]) simp_all
  then show ?thesis
    using assms(3-6)
    by (simp add: Model_save_def write_row_new [OF assms(1,2)] Ticket_constraints_def)
qed

lemma full_clean_rejects_taken_seat:
  assumes "s \<in> set (tickets db)" and "seat_key self = seat_key s" and "pk s \<noteq> pk self"
    and "pk (movie_session self) \<noteq> None"
  shows "\<exists>errors. full_clean cf validate_constraints self db = Inl (ValidationError errors None)"
    and "cf self db = [] \<Longrightarrow> clean self = Inr () \<Longrightarrow>
      full_clean cf validate_constraints self db =
        Inl (ValidationError
          [(''__all__'', [''Ticket with this Row, Seat and Movie session already exists.''])] None)"
proof -
  have taken: "list_ex (violates
       (UniqueConstraint [''row'', ''seat'', ''movie_session''] ''unique_ticket_constraint_name'')
       self) (tickets db)"
    using assms by (rule taken_seat_violation)
  show exact: "full_clean cf validate_constraints self db =
        Inl (ValidationError
          [(''__all__'', [''Ticket with this Row, Seat and Movie session already exists.''])] None)"
    if "cf self db = []" and "clean self = Inr ()"
    using that taken by (simp add: full_clean_def validate_constraints_unfold)
  show "\<exists>errors. full_clean cf validate_constraints self db = Inl (ValidationError errors None)"
  proof (cases "clean self")
    case (Inl e)
    then show ?thesis
      using full_clean_fails_when_clean_fails [of self e cf validate_constraints db] by blast
  next
    case (Inr u)
    show ?thesis
    proof (cases "cf self db = []")
      case True
      then show ?thesis using exact Inr by simp
    next
      case False
      define final where
        "final = update_error_dict
           (validate_constraints self db (map fst (cf self db))) (cf self db)"
      have "fst ` set (cf self db) \<noteq> {}" using False by simp
      then have "fst ` set final \<noteq> {}"
        unfolding final_def keys_update_error_dict by simp
      then have "final \<noteq> []" by auto
      then have "full_clean cf validate_constraints self db = Inl (ValidationError final None)"
        using Inr unfolding full_clean_def final_def by (simp add: Let_def)
      then show ?thesis by blast
    qed
  qed
qed

lemmas storage_eval =
  save_def full_clean_def clean_def validate_constraints_unfold Model_save_def write_row_def
  Ticket_column_def Ticket_constraints_def references_def pks_def fresh_pk_def
  fits_def Let_def example_taken_db_def example_backend_def example_defs

text \<open>
  C2, as stated, fails on the path through \<open>save\<close>: after a ticket for row 3, seat 4
  was saved, saving a second ticket for the same session, row and seat fails in
  \<open>full_clean\<close>, before the write, with a \<open>ValidationError\<close> under the key
  \<open>__all__\<close>, and not with \<open>DuplicateSeat\<close> from the storage layer.
\<close>

theorem duplicate_seat_through_save_counterexample:
  "save (\<lambda>t d. []) validate_constraints (Model_save example_backend)
      (example_ticket 3 4) False False example_db
     = (Inr ((example_ticket 3 4)\<lparr>pk := Some 1\<rparr>), example_taken_db)
   \<and> save (\<lambda>t d. []) validate_constraints (Model_save example_backend)
      (example_ticket 3 4) False False example_taken_db
     = (Inl (ValidationError
          [(''__all__'', [''Ticket with this Row, Seat and Movie session already exists.''])]
          None),
        example_taken_db)
   \<and> fst (save (\<lambda>t d. []) validate_constraints (Model_save example_backend)
      (example_ticket 3 4) False False example_taken_db)
     \<noteq> Inl (DuplicateSeat ''unique_ticket_constraint_name'')"
  by (simp add: storage_eval)

text \<open>
  C2, amended: for a fixed session the pair (row, seat) is unique across all stored
  tickets, and every \<open>save\<close>, insert or update, keeps it so, whatever the validators
  report. A new ticket that passes validation, fits the integer columns, refers to a
  stored session and a stored order and asks for a seat no stored ticket has, is stored
  under an unused key. A ticket for a seat that another stored ticket has is rejected
  with the state unchanged: through \<open>save\<close> by validation, before the write, with a
  \<open>ValidationError\<close> (under the key \<open>__all__\<close> when nothing else is wrong with the
  ticket), and, when it is new and its write reaches the storage layer, by that write
  with \<open>DuplicateSeat\<close>, an error different from every \<open>ValidationError\<close>.
\<close>

theorem seat_unique_per_session:
  assumes ok: "tickets_ok (tickets db)"
    and new1: "pk t1 = None" "\<not> fu1"
    and valid1: "cf1 t1 db = []" "clean t1 = Inr ()" "fits be (row t1)" "fits be (seat t1)"
    and stored1: "references (movie_session t1) (movie_sessions db)"
      "references (order t1) (orders db)"
    and free1: "seat_key t1 \<notin> set (map seat_key (tickets db))"
    and taken2: "s \<in> set (tickets db2)" "pk s \<noteq> pk t2" "seat_key t2 = seat_key s"
      "pk (movie_session t2) \<noteq> None"
  shows "tickets_ok (tickets (snd (save cf vu (Model_save be) self fi fu db)))
     \<and> (\<exists>k. k \<notin> set (pks (tickets db))
          \<and> save cf1 validate_constraints (Model_save be) t1 fi1 fu1 db
              = (Inr (t1\<lparr>pk := Some k\<rparr>), db\<lparr>tickets := tickets db @ [t1\<lparr>pk := Some k\<rparr>]\<rparr>))
     \<and> (\<exists>errors. save cf3 validate_constraints (Model_save be) t2 fi3 fu3 db2
              = (Inl (ValidationError errors None), db2))
     \<and> (cf3 t2 db2 = [] \<and> clean t2 = Inr () \<longrightarrow>
          save cf3 validate_constraints (Model_save be) t2 fi3 fu3 db2
            = (Inl (ValidationError
                 [(''__all__'',
                   [''Ticket with this Row, Seat and Movie session already exists.''])]
                 None),
               db2))
     \<and> (pk t2 = None \<and> \<not> fu2 \<and> fits be (row t2) \<and> fits be (seat t2)
          \<and> pk (order t2) \<noteq> None \<longrightarrow>
          Model_save be t2 fi2 fu2 db2
            = (Inl (DuplicateSeat ''unique_ticket_constraint_name''), db2))
     \<and> (\<forall>d c. DuplicateSeat ''unique_ticket_constraint_name'' \<noteq> ValidationError d c)"
proof (intro conjI)
  show "tickets_ok (tickets (snd (save cf vu (Model_save be) self fi fu db)))"
    using ok by (rule save_keeps_tickets_ok)
next
  have "full_clean cf1 validate_constraints t1 db = Inr ()"
    using valid1(1,2) free1 by (rule full_clean_passes_for_free_seat)
  then have "save cf1 validate_constraints (Model_save be) t1 fi1 fu1 db
      = (Inr (t1\<lparr>pk := Some (fresh_pk (tickets db))\<rparr>),
         db\<lparr>tickets := tickets db @ [t1\<lparr>pk := Some (fresh_pk (tickets db))\<rparr>]\<rparr>)"
    using Model_save_stores_free_seat [OF new1 valid1(3,4) stored1 free1, of fi1]
    by (simp add: save_def)
  then show "\<exists>k. k \<notin> set (pks (tickets db))
          \<and> save cf1 validate_constraints (Model_save be) t1 fi1 fu1 db
              = (Inr (t1\<lparr>pk := Some k\<rparr>), db\<lparr>tickets := tickets db @ [t1\<lparr>pk := Some k\<rparr>]\<rparr>)"
    using fresh_pk_not_stored [of "tickets db"] by blast
next
  obtain errors where "full_clean cf3 validate_constraints t2 db2 = Inl (ValidationError errors None)"
    using full_clean_rejects_taken_seat(1) [OF taken2(1,3,2,4), of cf3] by blast
  then show "\<exists>errors. save cf3 validate_constraints (Model_save be) t2 fi3 fu3 db2
              = (Inl (ValidationError errors None), db2)"
    by (simp add: save_def)
next
  show "cf3 t2 db2 = [] \<and> clean t2 = Inr () \<longrightarrow>
          save cf3 validate_constraints (Model_save be) t2 fi3 fu3 db2
            = (Inl (ValidationError
                 [(''__all__'',
                   [''Ticket with this Row, Seat and Movie session already exists.''])]
                 None),
               db2)"
    using full_clean_rejects_taken_seat(2) [OF taken2(1,3,2,4), of cf3]
    by (simp add: save_def)
next
  show "pk t2 = None \<and> \<not> fu2 \<and> fits be (row t2) \<and> fits be (seat t2)
          \<and> pk (order t2) \<noteq> None \<longrightarrow>
          Model_save be t2 fi2 fu2 db2
            = (Inl (DuplicateSeat ''unique_ticket_constraint_name''), db2)"
    using Model_save_rejects_taken_seat [of t2 fu2 be s db2 fi2] taken2(1,3,4) by blast
next
  show "\<forall>d c. DuplicateSeat ''unique_ticket_constraint_name'' \<noteq> ValidationError d c"
    by simp
qed

theorem seat_unique_per_session_witness:
  "save (\<lambda>t d. []) validate_constraints (Model_save example_backend)
      (example_ticket 3 4) False False example_db
     = (Inr ((example_ticket 3 4)\<lparr>pk := Some 1\<rparr>), example_taken_db)
   \<and> tickets example_taken_db = [(example_ticket 3 4)\<lparr>pk := Some 1\<rparr>]
   \<and> save (\<lambda>t d. []) validate_constraints (Model_save example_backend)
      (example_ticket 3 4) False False example_taken_db
     = (Inl (ValidationError
          [(''__all__'', [''Ticket with this Row, Seat and Movie session already exists.''])]
          None),
        example_taken_db)
   \<and> Model_save example_backend (example_ticket 3 4) False False example_taken_db
     = (Inl (DuplicateSeat ''unique_ticket_constraint_name''), example_taken_db)"
  using seat_unique_per_session
    [where db = example_db and ?t1.0 = "example_ticket 3 4" and ?fu1.0 = False
       and ?cf1.0 = "\<lambda>t d. []" and be = example_backend
       and s = "(example_ticket 3 4)\<lparr>pk := Some 1\<rparr>" and ?db2.0 = example_taken_db
       and ?t2.0 = "example_ticket 3 4" and ?fu2.0 = False
       and cf = "\<lambda>t d. []" and vu = validate_constraints and self = "example_ticket 3 4"
       and fi = False and fu = False and ?fi1.0 = False and ?cf3.0 = "\<lambda>t d. []"
       and ?fi3.0 = False and ?fu3.0 = False and ?fi2.0 = False]
  by (simp add: storage_eval tickets_ok_def)

section \<open>The dimensions of a \<open>CinemaHall\<close>\<close>

text \<open>
  C9, as stated, fails: a hall with 0 rows and -3 seats in a row is written as it is.
\<close>

theorem CinemaHall_positive_dimensions_counterexample:
  "CinemaHall_save example_backend example_void_hall False False example_db =
     (Inr (example_void_hall\<lparr>pk := Some 2\<rparr>),
      example_db\<lparr>cinema_halls := [example_hall, example_void_hall\<lparr>pk := Some 2\<rparr>]\<rparr>)
   \<and> \<not> (rows (example_void_hall\<lparr>pk := Some 2\<rparr>) > 0
        \<and> seats_in_row (example_void_hall\<lparr>pk := Some 2\<rparr>) > 0)"
  by (simp add: CinemaHall_save_def write_row_def fresh_pk_def pks_def fits_def Let_def
      example_void_hall_def example_backend_def example_defs)

text \<open>
  C9, amended: \<open>rows\<close> and \<open>seats_in_row\<close> are plain integer fields and the schema
  does not constrain them to be positive: a hall whose dimensions are within the range
  of the storage engine's integer column, zero and negative ones included, can be
  created or updated and is stored with the dimensions it was given.
\<close>

theorem CinemaHall_save_stores_nonpositive_dimensions:
  assumes "fits be (rows self)" and "fits be (seats_in_row self)"
    and "enforces_max_length be \<longrightarrow> length (name self) \<le> 255"
  shows "\<exists>self' db'. CinemaHall_save be self False False db = (Inr self', db')
     \<and> self' \<in> set (cinema_halls db')
     \<and> rows self' = rows self \<and> seats_in_row self' = seats_in_row self"
proof -
  obtain self' table' where written: "write_row self False False (cinema_halls db) = Inr (self', table')"
    and stored: "self' \<in> set table'"
    and same: "self' = self \<or> (\<exists>k. self' = self\<lparr>pk := Some k\<rparr>)"
    using write_row_default [of self "cinema_halls db"] by blast
  have "CinemaHall_save be self False False db = (Inr self', db\<lparr>cinema_halls := table'\<rparr>)"
    using assms written by (auto simp: CinemaHall_save_def)
  moreover have "self' \<in> set (cinema_halls (db\<lparr>cinema_halls := table'\<rparr>))"
    using stored by simp
  moreover have "rows self' = rows self \<and> seats_in_row self' = seats_in_row self"
    using same by auto
  ultimately show ?thesis by blast
qed

theorem CinemaHall_save_stores_nonpositive_dimensions_witness:
  "fits example_backend (rows example_void_hall)
   \<and> fits example_backend (seats_in_row example_void_hall)
   \<and> length (name example_void_hall) \<le> 255
   \<and> rows example_void_hall = 0 \<and> seats_in_row example_void_hall = - 3
   \<and> CinemaHall_save example_backend example_void_hall False False example_db =
     (Inr (example_void_hall\<lparr>pk := Some 2\<rparr>),
      example_db\<lparr>cinema_halls := [example_hall, example_void_hall\<lparr>pk := Some 2\<rparr>]\<rparr>)"
  using CinemaHall_save_stores_nonpositive_dimensions
    [of example_backend example_void_hall example_db]
  by (simp add: CinemaHall_save_def write_row_def fresh_pk_def pks_def fits_def Let_def
      example_void_hall_def example_backend_def example_defs)

end
